theory Spec2Isabelle
  imports Complex_Main "HOL-Library.AList"
begin

section \<open>Python values\<close>

text \<open>
  A Python \<open>str\<close> is a sequence of Unicode code points, and slicing and \<open>len\<close> count
  code points. The source contains literals outside ASCII, so a string is modelled as the
  list of its code points; \<open>py\<close> turns an ASCII literal into one.
\<close>

type_synonym pystr = "nat list"

definition py :: "string \<Rightarrow> pystr" where
  "py s = map of_char s"

text \<open>The values that occur in the dictionaries of \<open>main.py\<close>.\<close>

datatype pyval = PyNone | PyStr pystr | PyInt int

text \<open>
  A \<open>dict\<close> keeps insertion order; it is an association list with distinct keys.
  \<open>d.get(k)\<close> is \<open>None\<close> for a missing key, \<open>d.get(k, v)\<close> is \<open>v\<close>.
\<close>

type_synonym pydict = "(pystr \<times> pyval) list"

definition dict_get :: "pydict \<Rightarrow> pystr \<Rightarrow> pyval" where
  "dict_get d k = (case map_of d k of None \<Rightarrow> PyNone | Some v \<Rightarrow> v)"

definition dict_get_default :: "pydict \<Rightarrow> pystr \<Rightarrow> pyval \<Rightarrow> pyval" where
  "dict_get_default d k v0 = (case map_of d k of None \<Rightarrow> v0 | Some v \<Rightarrow> v)"

section \<open>Exceptions\<close>

text \<open>
  \<open>HTTPException(status_code, detail)\<close> of the web framework, \<open>JWTError\<close> of the token
  library, and any other exception with its class name and its text \<open>str(e)\<close>. A raise
  is the left injection of a result.
\<close>

datatype exn = HTTPException nat pystr | JWTError | Exception pystr pystr

section \<open>Configuration\<close>

text \<open>\<open>os.getenv\<close> reads the process environment; the second argument is the default.\<close>

type_synonym environment = "pystr \<Rightarrow> pystr option"

definition getenv_default :: "environment \<Rightarrow> pystr \<Rightarrow> pystr \<Rightarrow> pystr" where
  "getenv_default environ k v0 = (case environ k of None \<Rightarrow> v0 | Some v \<Rightarrow> v)"

definition SECRET_KEY :: "environment \<Rightarrow> pystr" where
  "SECRET_KEY environ = getenv_default environ (py ''SECRET_KEY'') (py ''supersecretkeychange'')"

definition ALGORITHM :: pystr where
  "ALGORITHM = py ''HS256''"

definition ACCESS_TOKEN_EXPIRE_MINUTES :: int where
  "ACCESS_TOKEN_EXPIRE_MINUTES = 60 * 24"

text \<open>
  \<open>pwd_context\<close> is an object of the password-hashing library, which is not part of the
  source tree. The code only calls its two methods, so the object is a parameter of the
  model: a record of the two methods, each of which may raise. \<open>hash\<close> draws a fresh
  salt on every call; a value of this record fixes the outcome of the call at hand.
  The stored hash comes out of a loosely typed document, so \<open>verify\<close> receives whatever
  value was found there.
\<close>

record CryptContext =
  hash :: "pystr \<Rightarrow> exn + pystr"
  verify :: "pystr \<Rightarrow> pyval \<Rightarrow> exn + bool"

section \<open>Models\<close>

datatype jwt = JWT pydict pystr pystr | Malformed pystr

record Token =
  access_token :: jwt
  token_type :: pystr

record Testimonial =
  name :: pystr
  role :: pystr
  quote :: pystr
  avatar :: "pystr option"

record PricingTier =
  name :: pystr
  price :: real
  description :: pystr
  features :: "pystr list"

section \<open>The store\<close>

text \<open>
  \<open>db\<close> is imported from the module \<open>database\<close>; it is either \<open>None\<close> or a handle.
  \<open>main.py\<close> reads the attribute \<open>name\<close> of the handle (which may be missing, or raise
  when read) and calls \<open>list_collection_names()\<close>; of an exception raised there only its
  text \<open>str(e)\<close> is ever used. The documents held in each collection are the state that
  the adapter functions below read and write.
\<close>

record Database =
  name :: "pystr + pystr option"
  list_collection_names :: "pystr + pystr list"
  documents :: "pystr \<Rightarrow> pydict list"

text \<open>
  Modelled from the spec: the functions \<open>get_documents\<close> and \<open>create_document\<close> of the
  module \<open>database\<close>, which is not among the source files. The spec describes a document
  store addressed by collection name and filter predicate: \<open>get_documents(collection,
  filter, limit)\<close> returns the documents of the collection that agree with the filter on
  every key of the filter, at most \<open>limit\<close> of them (an exact match);
  \<open>create_document(collection, doc)\<close> is a single document insert. A round trip to the
  store can fail; without a handle it always does.
\<close>

definition matches :: "pydict \<Rightarrow> pydict \<Rightarrow> bool" where
  "matches flt doc = list_all (\<lambda>(k, v). map_of doc k = Some v) flt"

definition get_documents ::
  "Database option \<Rightarrow> pystr \<Rightarrow> pydict \<Rightarrow> nat \<Rightarrow> exn + pydict list" where
  "get_documents db collection flt limit =
     (case db of
        None \<Rightarrow> Inl (Exception (py ''Exception'') (py ''Database not available''))
      | Some d \<Rightarrow> Inr (take limit (filter (matches flt) (documents d collection))))"

definition create_document ::
  "Database option \<Rightarrow> pystr \<Rightarrow> pydict \<Rightarrow> (exn + unit) \<times> Database option" where
  "create_document db collection doc =
     (case db of
        None \<Rightarrow> (Inl (Exception (py ''Exception'') (py ''Database not available'')), None)
      | Some d \<Rightarrow>
          (Inr (),
           Some (d\<lparr>documents := (documents d)(collection := documents d collection @ [doc])\<rparr>)))"

section \<open>Auth utilities\<close>

definition verify_password :: "CryptContext \<Rightarrow> pystr \<Rightarrow> pyval \<Rightarrow> exn + bool" where
  "verify_password pwd_context plain_password hashed_password =
     verify pwd_context plain_password hashed_password"

definition get_password_hash :: "CryptContext \<Rightarrow> pystr \<Rightarrow> exn + pystr" where
  "get_password_hash pwd_context password = hash pwd_context password"

text \<open>
  Modelled from the spec: \<open>jwt.encode\<close> and \<open>jwt.decode\<close> of the token library, which is
  not among the source files. The spec describes issuing as signing a claims set with
  the secret key, and verifying as decoding with a check of the signature and of the
  expiry, failing if the signature verification fails, the token is malformed, or
  \<open>exp\<close> has passed. Signing is symbolic: \<open>JWT claims key alg\<close> stands for the token
  string that carries \<open>claims\<close> signed with \<open>key\<close> under \<open>alg\<close>, \<open>Malformed s\<close> for any
  other string. Times are seconds on the UTC clock.
\<close>

definition jwt_encode :: "pydict \<Rightarrow> pystr \<Rightarrow> pystr \<Rightarrow> jwt" where
  "jwt_encode claims key algorithm = JWT claims key algorithm"

fun jwt_decode :: "jwt \<Rightarrow> pystr \<Rightarrow> pystr list \<Rightarrow> int \<Rightarrow> exn + pydict" where
  "jwt_decode (Malformed s) key algorithms now = Inl JWTError"
| "jwt_decode (JWT claims k a) key algorithms now =
     (if k = key \<and> a \<in> set algorithms then
        (case map_of claims (py ''exp'') of
           None \<Rightarrow> Inr claims
         | Some (PyInt e) \<Rightarrow> if e < now then Inl JWTError else Inr claims
         | Some _ \<Rightarrow> Inl JWTError)
      else Inl JWTError)"

text \<open>
  The process: its environment, the clock read by \<open>datetime.utcnow()\<close>, and the
  password-hashing object.
\<close>

record world =
  environ :: environment
  utcnow :: int
  pwd_context :: CryptContext

text \<open>
  A \<open>timedelta\<close> is a number of seconds. \<open>expires_delta or timedelta(...)\<close> takes the
  default also for a zero \<open>timedelta\<close>, which is falsy.
\<close>

definition timedelta_minutes :: "int \<Rightarrow> int" where
  "timedelta_minutes m = 60 * m"

definition create_access_token :: "world \<Rightarrow> pydict \<Rightarrow> int option \<Rightarrow> jwt" where
  "create_access_token w data expires_delta =
     (let to_encode = data;
          expire = utcnow w +
            (case expires_delta of
               None \<Rightarrow> timedelta_minutes ACCESS_TOKEN_EXPIRE_MINUTES
             | Some d \<Rightarrow> if d = 0 then timedelta_minutes ACCESS_TOKEN_EXPIRE_MINUTES else d);
          to_encode = AList.update (py ''exp'') (PyInt expire) to_encode
      in jwt_encode to_encode (SECRET_KEY (environ w)) ALGORITHM)"

definition credentials_exception :: exn where
  "credentials_exception = HTTPException 401 (py ''Could not validate credentials'')"

text \<open>
  The \<open>try\<close> block of \<open>get_current_user\<close>: the \<open>raise\<close> for a missing subject happens
  inside it, and \<open>except JWTError\<close> lets every other exception pass.
\<close>

definition decode_subject :: "world \<Rightarrow> jwt \<Rightarrow> exn + pyval" where
  "decode_subject w token =
     (case jwt_decode token (SECRET_KEY (environ w)) [ALGORITHM] (utcnow w) of
        Inl e \<Rightarrow> Inl e
      | Inr payload \<Rightarrow>
          (let email = dict_get payload (py ''sub'')
           in if email = PyNone then Inl credentials_exception else Inr email))"

definition get_current_user :: "world \<Rightarrow> Database option \<Rightarrow> jwt \<Rightarrow> exn + pydict" where
  "get_current_user w db token =
     (case decode_subject w token of
        Inl JWTError \<Rightarrow> Inl credentials_exception
      | Inl e \<Rightarrow> Inl e
      | Inr email \<Rightarrow>
          (case get_documents db (py ''agencyuser'') [(py ''email'', email)] 1 of
             Inl e \<Rightarrow> Inl e
           | Inr users \<Rightarrow>
               (case users of [] \<Rightarrow> Inl credentials_exception | user # _ \<Rightarrow> Inr user)))"

section \<open>Content handlers\<close>

definition get_pricing :: "PricingTier list" where
  "get_pricing =
     [\<lparr>PricingTier.name = py ''Starter'', price = 299,
       description = py ''Perfect for quick social edits'',
       features = [py ''Up to 60s video'', py ''1 revision'', py ''48h delivery'']\<rparr>,
      \<lparr>PricingTier.name = py ''Pro'', price = 699,
       description = py ''For creators and brands'',
       features = [py ''Up to 5 min'', py ''3 revisions'', py ''Color + sound mix'']\<rparr>,
      \<lparr>PricingTier.name = py ''Studio'', price = 1499,
       description = py ''Agency-level polish'',
       features = [py ''10+ min'', py ''Unlimited revisions'', py ''Motion graphics'']\<rparr>]"

text \<open>The first quote contains an em dash, code point 8212.\<close>

definition get_testimonials :: "Testimonial list" where
  "get_testimonials =
     [\<lparr>Testimonial.name = py ''Ava Stone'', role = py ''Creator'',
       quote = py ''They made my content pop '' @ [8212] @ py '' fast and flawless!'',
       avatar = None\<rparr>,
      \<lparr>Testimonial.name = py ''Liam Chen'', role = py ''Brand Manager'',
       quote = py ''Consistent quality and on-time delivery every time.'',
       avatar = None\<rparr>,
      \<lparr>Testimonial.name = py ''Maya Patel'', role = py ''Founder'',
       quote = py ''Our ads converted 2x better after their edits.'',
       avatar = None\<rparr>]"

section \<open>Auth routes\<close>

record AuthIn =
  email :: pystr
  password :: pystr

text \<open>
  \<open>s.split(sep)\<close> for a separator of one code point: the pieces between the
  occurrences of the separator, in order. The result is never empty, so the index
  \<open>[0]\<close> that \<open>register\<close> takes never raises.
\<close>

fun str_split :: "nat \<Rightarrow> pystr \<Rightarrow> pystr list" where
  "str_split sep [] = [[]]"
| "str_split sep (c # cs) =
     (if c = sep then [] # str_split sep cs
      else (case str_split sep cs of [] \<Rightarrow> [[c]] | p # ps \<Rightarrow> (c # p) # ps))"

definition at_sign :: nat where
  "at_sign = of_char CHR ''@''"

text \<open>
  \<open>register\<close> and \<open>login\<close> run against the store; \<open>register\<close> returns the store as
  it leaves it. An exception leaves the store as it was when it was raised.
\<close>

definition register ::
  "world \<Rightarrow> Database option \<Rightarrow> AuthIn \<Rightarrow> (exn + Token) \<times> Database option" where
  "register w db payload =
     (let email = AuthIn.email payload;
          password = AuthIn.password payload
      in case get_documents db (py ''agencyuser'') [(py ''email'', PyStr email)] 1 of
           Inl e \<Rightarrow> (Inl e, db)
         | Inr existing \<Rightarrow>
             if existing \<noteq> [] then
               (Inl (HTTPException 400 (py ''Email already registered'')), db)
             else
               (case get_password_hash (pwd_context w) password of
                  Inl e \<Rightarrow> (Inl e, db)
                | Inr password_hash \<Rightarrow>
                    (case create_document db (py ''agencyuser'')
                            [(py ''email'', PyStr email),
                             (py ''password_hash'', PyStr password_hash),
                             (py ''name'', PyStr (hd (str_split at_sign email)))] of
                       (Inl e, db') \<Rightarrow> (Inl e, db')
                     | (Inr _, db') \<Rightarrow>
                         (Inr \<lparr>access_token =
                                 create_access_token w [(py ''sub'', PyStr email)] None,
                               token_type = py ''bearer''\<rparr>,
                          db'))))"

definition login :: "world \<Rightarrow> Database option \<Rightarrow> AuthIn \<Rightarrow> exn + Token" where
  "login w db payload =
     (let email = AuthIn.email payload;
          password = AuthIn.password payload
      in case get_documents db (py ''agencyuser'') [(py ''email'', PyStr email)] 1 of
           Inl e \<Rightarrow> Inl e
         | Inr [] \<Rightarrow> Inl (HTTPException 400 (py ''Invalid credentials''))
         | Inr (user # _) \<Rightarrow>
             (case verify_password (pwd_context w) password
                     (dict_get_default user (py ''password_hash'') (PyStr [])) of
                Inl e \<Rightarrow> Inl e
              | Inr ok \<Rightarrow>
                  if \<not> ok then Inl (HTTPException 400 (py ''Invalid credentials''))
                  else Inr \<lparr>access_token =
                              create_access_token w [(py ''sub'', PyStr email)] None,
                            token_type = py ''bearer''\<rparr>))"

text \<open>\<open>/me\<close>: the handler builds a new two-key dictionary from the user's record.\<close>

definition me :: "pydict \<Rightarrow> pydict" where
  "me current_user =
     [(py ''email'', dict_get current_user (py ''email'')),
      (py ''name'', dict_get current_user (py ''name''))]"

section \<open>The diagnostic route\<close>

text \<open>
  \<open>test_database\<close> mutates the dictionary \<open>response\<close> statement by statement, inside
  two nested \<open>try\<close> blocks. A statement takes the dictionary and returns it updated,
  together with the text of the exception it raised, if any; what was written before
  a raise stays written. \<open>except Exception as e\<close> catches every exception of the block.
\<close>

record status =
  backend :: pystr
  database :: pystr
  database_url :: "pystr option"
  database_name :: "pystr option"
  connection_status :: pystr
  collections :: "pystr list"

type_synonym stmt = "status \<Rightarrow> pystr option \<times> status"

definition assign :: "(status \<Rightarrow> status) \<Rightarrow> stmt" where
  "assign f r = (None, f r)"

definition seq :: "stmt \<Rightarrow> stmt \<Rightarrow> stmt" where
  "seq a b r = (case a r of (None, r') \<Rightarrow> b r' | (Some e, r') \<Rightarrow> (Some e, r'))"

definition eval_then :: "pystr + 'a \<Rightarrow> ('a \<Rightarrow> stmt) \<Rightarrow> stmt" where
  "eval_then x k r = (case x of Inl e \<Rightarrow> (Some e, r) | Inr v \<Rightarrow> k v r)"

definition try_except :: "stmt \<Rightarrow> (pystr \<Rightarrow> stmt) \<Rightarrow> stmt" where
  "try_except body handler r =
     (case body r of (None, r') \<Rightarrow> (None, r') | (Some e, r') \<Rightarrow> handler e r')"

text \<open>The marks are the code points 9989, 10060 and 9888 followed by 65039.\<close>

definition ok_mark :: pystr where
  "ok_mark = [9989]"

definition no_mark :: pystr where
  "no_mark = [10060]"

definition warn_mark :: pystr where
  "warn_mark = [9888, 65039]"

definition truthy :: "pystr option \<Rightarrow> bool" where
  "truthy v = (case v of None \<Rightarrow> False | Some s \<Rightarrow> s \<noteq> [])"

definition response0 :: status where
  "response0 =
     \<lparr>backend = ok_mark @ py '' Running'',
      database = no_mark @ py '' Not Available'',
      database_url = None,
      database_name = None,
      connection_status = py ''Not Connected'',
      collections = []\<rparr>"

definition list_collections :: "Database \<Rightarrow> stmt" where
  "list_collections d =
     try_except
       (eval_then (list_collection_names d) (\<lambda>collections.
          seq (assign (\<lambda>r. r\<lparr>collections := take 10 collections\<rparr>))
              (assign (\<lambda>r. r\<lparr>database := ok_mark @ py '' Connected & Working''\<rparr>))))
       (\<lambda>e. assign (\<lambda>r. r\<lparr>database :=
                warn_mark @ py ''  Connected but Error: '' @ take 50 e\<rparr>))"

definition probe :: "Database option \<Rightarrow> stmt" where
  "probe db =
     try_except
       (case db of
          Some d \<Rightarrow>
            seq (assign (\<lambda>r. r\<lparr>database := ok_mark @ py '' Available''\<rparr>))
           (seq (assign (\<lambda>r. r\<lparr>database_url := Some (ok_mark @ py '' Configured'')\<rparr>))
           (seq (eval_then (Database.name d) (\<lambda>n.
                   assign (\<lambda>r. r\<lparr>database_name :=
                     Some (case n of Some v \<Rightarrow> v | None \<Rightarrow> ok_mark @ py '' Connected'')\<rparr>)))
           (seq (assign (\<lambda>r. r\<lparr>connection_status := py ''Connected''\<rparr>))
                (list_collections d))))
        | None \<Rightarrow>
            assign (\<lambda>r. r\<lparr>database := warn_mark @ py ''  Available but not initialized''\<rparr>))
       (\<lambda>e. assign (\<lambda>r. r\<lparr>database := no_mark @ py '' Error: '' @ take 50 e\<rparr>))"

definition test_database :: "Database option \<Rightarrow> environment \<Rightarrow> pystr option \<times> status" where
  "test_database db env =
     seq (probe db)
    (seq (assign (\<lambda>r. r\<lparr>database_url := Some
             (if truthy (env (py ''DATABASE_URL'')) then ok_mark @ py '' Set''
              else no_mark @ py '' Not Set'')\<rparr>))
         (assign (\<lambda>r. r\<lparr>database_name := Some
             (if truthy (env (py ''DATABASE_NAME'')) then ok_mark @ py '' Set''
              else no_mark @ py '' Not Set'')\<rparr>)))
     response0"

section \<open>The hashing library's dispatch\<close>

text \<open>
  The repository configures \<open>pwd_context\<close> as a passlib \<open>CryptContext\<close> with the single
  scheme bcrypt. The library is not part of the source tree; what follows is the
  dispatch that its \<open>verify\<close> performs before any digest is computed. A stored hash
  of \<open>None\<close> is answered with \<open>False\<close>. Otherwise the scheme of the hash is identified
  by its prefix, one of the bcrypt identifiers; a string that no configured scheme
  identifies raises \<open>UnknownHashError\<close>, and a value that is not a string raises
  \<open>TypeError\<close>. The bcrypt computation itself stays a parameter.
\<close>

definition bcrypt_idents :: "pystr list" where
  "bcrypt_idents = [py ''$2$'', py ''$2a$'', py ''$2x$'', py ''$2y$'', py ''$2b$'']"

definition bcrypt_identify :: "pystr \<Rightarrow> bool" where
  "bcrypt_identify h = list_ex (\<lambda>ident. take (length ident) h = ident) bcrypt_idents"

definition passlib_verify ::
  "(pystr \<Rightarrow> pystr \<Rightarrow> exn + bool) \<Rightarrow> pystr \<Rightarrow> pyval \<Rightarrow> exn + bool" where
  "passlib_verify bcrypt_verify secret stored =
     (case stored of
        PyNone \<Rightarrow> Inr False
      | PyStr h \<Rightarrow>
          if bcrypt_identify h then bcrypt_verify secret h
          else Inl (Exception (py ''UnknownHashError'') (py ''hash could not be identified''))
      | PyInt i \<Rightarrow>
          Inl (Exception (py ''TypeError'') (py ''hash must be unicode or bytes'')))"

definition passlib_context ::
  "(pystr \<Rightarrow> exn + pystr) \<Rightarrow> (pystr \<Rightarrow> pystr \<Rightarrow> exn + bool) \<Rightarrow> CryptContext" where
  "passlib_context bcrypt_hash bcrypt_verify =
     \<lparr>hash = bcrypt_hash, verify = passlib_verify bcrypt_verify\<rparr>"

section \<open>Concrete inputs\<close>

text \<open>
  Small inputs on which the model is run. \<open>toy_context\<close> stands in for the hashing
  library with a transparent digest; it is used for running the routes only, and
  nothing is claimed about it.
\<close>

definition toy_context :: CryptContext where
  "toy_context =
     \<lparr>hash = (\<lambda>p. Inr (py ''$2b$'' @ p)),
      verify = (\<lambda>p h. Inr (h = PyStr (py ''$2b$'' @ p)))\<rparr>"

definition world0 :: world where
  "world0 = \<lparr>environ = (\<lambda>k. None), utcnow = 1000, pwd_context = toy_context\<rparr>"

definition empty_db :: Database where
  "empty_db =
     \<lparr>Database.name = Inr (Some (py ''agency'')),
      list_collection_names = Inr [],
      documents = (\<lambda>c. [])\<rparr>"

definition alice :: AuthIn where
  "alice = \<lparr>email = py ''a@x.com'', password = py ''pw''\<rparr>"

definition alice_doc :: pydict where
  "alice_doc =
     [(py ''email'', PyStr (py ''a@x.com'')),
      (py ''password_hash'', PyStr (py ''$2b$pw'')),
      (py ''name'', PyStr (py ''a''))]"

definition alice_db :: Database where
  "alice_db = empty_db\<lparr>documents := (\<lambda>c. if c = py ''agencyuser'' then [alice_doc] else [])\<rparr>"

text \<open>A user record without the field \<open>password_hash\<close>.\<close>

definition legacy_doc :: pydict where
  "legacy_doc = [(py ''email'', PyStr (py ''old@x.com'')), (py ''name'', PyStr (py ''old''))]"

definition legacy_db :: Database where
  "legacy_db = empty_db\<lparr>documents := (\<lambda>c. if c = py ''agencyuser'' then [legacy_doc] else [])\<rparr>"

definition legacy :: AuthIn where
  "legacy = \<lparr>email = py ''old@x.com'', password = py ''pw''\<rparr>"

section \<open>Auxiliary facts\<close>

lemmas stmt_defs = assign_def seq_def eval_then_def try_except_def

lemmas mark_defs = ok_mark_def no_mark_def warn_mark_def

lemmas input_defs = world0_def toy_context_def empty_db_def alice_def alice_doc_def
  alice_db_def legacy_doc_def legacy_db_def legacy_def

lemma str_split_nonempty: "str_split sep s \<noteq> []"
  by (induction s) (auto split: list.splits)

lemma str_split_hd: "hd (str_split sep s) = takeWhile (\<lambda>c. c \<noteq> sep) s"
  using str_split_nonempty [of sep] by (induction s) (auto split: list.splits)

lemma get_documents_one_key:
  "get_documents (Some d) c [(k, v)] (Suc 0) =
     Inr (take (Suc 0) (filter (\<lambda>doc. map_of doc k = Some v) (documents d c)))"
proof -
  have "matches [(k, v)] = (\<lambda>doc. map_of doc k = Some v)"
    by (simp add: matches_def fun_eq_iff)
  then show ?thesis by (simp add: get_documents_def)
qed

lemma create_access_token_default:
  "create_access_token w [(py ''sub'', PyStr e)] None =
     JWT [(py ''sub'', PyStr e),
          (py ''exp'', PyInt (utcnow w + timedelta_minutes ACCESS_TOKEN_EXPIRE_MINUTES))]
       (SECRET_KEY (environ w)) ALGORITHM"
  by (simp add: create_access_token_def Let_def jwt_encode_def py_def)

lemma register_taken:
  assumes "\<exists>doc\<in>set (documents d (py ''agencyuser'')).
             map_of doc (py ''email'') = Some (PyStr (AuthIn.email payload))"
  shows "register w (Some d) payload =
           (Inl (HTTPException 400 (py ''Email already registered'')), Some d)"
  using assms by (auto simp: register_def Let_def get_documents_one_key filter_empty_conv)

lemma register_fresh:
  assumes "\<forall>doc\<in>set (documents d (py ''agencyuser'')).
             map_of doc (py ''email'') \<noteq> Some (PyStr (AuthIn.email payload))"
    and "hash (pwd_context w) (AuthIn.password payload) = Inr h"
  shows "register w (Some d) payload =
     (Inr \<lparr>access_token = create_access_token w [(py ''sub'', PyStr (AuthIn.email payload))] None,
           token_type = py ''bearer''\<rparr>,
      Some (d\<lparr>documents := (documents d)(py ''agencyuser'' :=
              documents d (py ''agencyuser'') @
                [[(py ''email'', PyStr (AuthIn.email payload)),
                  (py ''password_hash'', PyStr h),
                  (py ''name'', PyStr (takeWhile (\<lambda>c. c \<noteq> at_sign) (AuthIn.email payload)))]])\<rparr>))"
  using assms
  by (simp add: register_def Let_def get_documents_one_key filter_empty_conv
      get_password_hash_def create_document_def str_split_hd)

text \<open>
  The two refusals that \<open>login\<close> itself issues are one and the same error, status
  400 with the detail \<open>Invalid credentials\<close>: when the lookup finds no user with the
  email, and when it finds one and the library answers the verification with
  \<open>False\<close>.
\<close>

lemma login_refused:
  assumes "get_documents db (py ''agencyuser'')
             [(py ''email'', PyStr (AuthIn.email payload))] 1 = Inr users"
    and "users = [] \<or>
         (\<exists>user rest. users = user # rest \<and>
            verify_password (pwd_context w) (AuthIn.password payload)
              (dict_get_default user (py ''password_hash'') (PyStr [])) = Inr False)"
  shows "login w db payload = Inl (HTTPException 400 (py ''Invalid credentials''))"
  using assms by (auto simp: login_def Let_def)

section \<open>Content and profile\<close>

text \<open>
  C8. \<open>get_pricing\<close> takes no argument and reads no state: it is the fixed list of the
  three tiers Starter, Pro, Studio, in that order; \<open>get_testimonials\<close> is likewise a
  fixed list of three testimonials. Any two calls therefore return equal results.
\<close>

theorem content_fixed:
  "map PricingTier.name get_pricing = [py ''Starter'', py ''Pro'', py ''Studio''] \<and>
   map price get_pricing = [299, 699, 1499] \<and>
   length get_pricing = 3 \<and>
   map Testimonial.name get_testimonials =
     [py ''Ava Stone'', py ''Liam Chen'', py ''Maya Patel''] \<and>
   length get_testimonials = 3"
  by (simp add: get_pricing_def get_testimonials_def)

text \<open>
  C9. The response of \<open>/me\<close> has exactly the two keys \<open>email\<close> and \<open>name\<close>, in that
  order, each with the value the user's record holds for it; the key
  \<open>password_hash\<close> is not among them, whatever the record contains.
\<close>

theorem me_projection:
  "map fst (me current_user) = [py ''email'', py ''name''] \<and>
   map_of (me current_user) (py ''email'') = Some (dict_get current_user (py ''email'')) \<and>
   map_of (me current_user) (py ''name'') = Some (dict_get current_user (py ''name'')) \<and>
   map_of (me current_user) (py ''password_hash'') = None"
  by (simp add: me_def py_def)

section \<open>The diagnostic route\<close>

text \<open>
  C7. \<open>test_database\<close> never raises: for every store handle (absent, working, or with
  \<open>name\<close> or \<open>list_collection_names()\<close> raising) and every environment it returns
  the response, and the field \<open>database\<close> of the response tells which case occurred.
\<close>

theorem test_database_never_raises:
  "fst (test_database db env) = None \<and>
   database (snd (test_database db env)) =
     (case db of
        None \<Rightarrow> warn_mark @ py ''  Available but not initialized''
      | Some d \<Rightarrow>
          (case Database.name d of
             Inl e \<Rightarrow> no_mark @ py '' Error: '' @ take 50 e
           | Inr n \<Rightarrow>
               (case list_collection_names d of
                  Inl e \<Rightarrow> warn_mark @ py ''  Connected but Error: '' @ take 50 e
                | Inr cs \<Rightarrow> ok_mark @ py '' Connected & Working'')))"
  by (simp add: test_database_def probe_def list_collections_def stmt_defs
      split: option.splits sum.splits prod.splits)

text \<open>
  C10. The response of \<open>test_database\<close> is bounded: \<open>collections\<close> is the first 10
  names that \<open>list_collection_names()\<close> returned (and empty when it was not reached or
  raised), so it has at most 10 entries; the text of a caught exception appears in
  \<open>database\<close> cut to its first 50 code points, so that field has at most 75.
\<close>

theorem test_database_bounded:
  "length (collections (snd (test_database db env))) \<le> 10 \<and>
   length (database (snd (test_database db env))) \<le> 75 \<and>
   (case db of
      None \<Rightarrow> collections (snd (test_database db env)) = []
    | Some d \<Rightarrow>
        (case Database.name d of
           Inl e \<Rightarrow>
             database (snd (test_database db env)) = no_mark @ py '' Error: '' @ take 50 e \<and>
             collections (snd (test_database db env)) = []
         | Inr n \<Rightarrow>
             (case list_collection_names d of
                Inl e \<Rightarrow>
                  database (snd (test_database db env)) =
                    warn_mark @ py ''  Connected but Error: '' @ take 50 e \<and>
                  collections (snd (test_database db env)) = []
              | Inr cs \<Rightarrow> collections (snd (test_database db env)) = take 10 cs)))"
  by (auto simp add: test_database_def probe_def list_collections_def stmt_defs response0_def
      py_def mark_defs split: option.splits sum.splits prod.splits)

section \<open>Tokens\<close>

text \<open>
  C2. Token round trip: a token issued for an email with the default expiry, decoded
  with the same secret key at any time up to its expiry of 24 hours (in particular
  immediately), verifies and yields the claims with that email as subject;
  \<open>get_current_user\<close> then looks up exactly that email.
\<close>

theorem token_round_trip:
  assumes "SECRET_KEY (environ w') = SECRET_KEY (environ w)"
    and "utcnow w' \<le> utcnow w + timedelta_minutes ACCESS_TOKEN_EXPIRE_MINUTES"
  shows "jwt_decode (create_access_token w [(py ''sub'', PyStr e)] None)
           (SECRET_KEY (environ w')) [ALGORITHM] (utcnow w') =
           Inr [(py ''sub'', PyStr e),
                (py ''exp'', PyInt (utcnow w + timedelta_minutes ACCESS_TOKEN_EXPIRE_MINUTES))] \<and>
         decode_subject w' (create_access_token w [(py ''sub'', PyStr e)] None) =
           Inr (PyStr e) \<and>
         get_current_user w' db (create_access_token w [(py ''sub'', PyStr e)] None) =
           (case get_documents db (py ''agencyuser'') [(py ''email'', PyStr e)] 1 of
              Inl x \<Rightarrow> Inl x
            | Inr [] \<Rightarrow> Inl credentials_exception
            | Inr (user # rest) \<Rightarrow> Inr user)"
proof -
  have dec: "jwt_decode (create_access_token w [(py ''sub'', PyStr e)] None)
           (SECRET_KEY (environ w')) [ALGORITHM] (utcnow w') =
           Inr [(py ''sub'', PyStr e),
                (py ''exp'', PyInt (utcnow w + timedelta_minutes ACCESS_TOKEN_EXPIRE_MINUTES))]"
    using assms unfolding create_access_token_default by (simp add: py_def)
  have sub: "decode_subject w' (create_access_token w [(py ''sub'', PyStr e)] None) =
           Inr (PyStr e)"
    unfolding decode_subject_def dec by (simp add: dict_get_def py_def)
  have "get_current_user w' db (create_access_token w [(py ''sub'', PyStr e)] None) =
           (case get_documents db (py ''agencyuser'') [(py ''email'', PyStr e)] 1 of
              Inl x \<Rightarrow> Inl x
            | Inr [] \<Rightarrow> Inl credentials_exception
            | Inr (user # rest) \<Rightarrow> Inr user)"
    unfolding get_current_user_def sub by (simp split: sum.splits list.splits)
  with dec sub show ?thesis by simp
qed

theorem token_round_trip_witness:
  "SECRET_KEY (environ world0) = SECRET_KEY (environ world0) \<and>
   utcnow world0 \<le> utcnow world0 + timedelta_minutes ACCESS_TOKEN_EXPIRE_MINUTES \<and>
   decode_subject world0 (create_access_token world0 [(py ''sub'', PyStr (py ''a@x.com''))] None) =
     Inr (PyStr (py ''a@x.com'')) \<and>
   get_current_user world0 (Some alice_db)
     (create_access_token world0 [(py ''sub'', PyStr (py ''a@x.com''))] None) = Inr alice_doc"
proof -
  have h1: "SECRET_KEY (environ world0) = SECRET_KEY (environ world0)"
    by simp
  have h2: "utcnow world0 \<le> utcnow world0 + timedelta_minutes ACCESS_TOKEN_EXPIRE_MINUTES"
    by (simp add: timedelta_minutes_def ACCESS_TOKEN_EXPIRE_MINUTES_def)
  have look: "get_documents (Some alice_db) (py ''agencyuser'')
      [(py ''email'', PyStr (py ''a@x.com''))] (Suc 0) = Inr [alice_doc]"
    by (simp add: get_documents_def matches_def input_defs py_def)
  show ?thesis
    using token_round_trip [OF h1 h2, of "py ''a@x.com''" "Some alice_db"] h2
    by (simp add: look)
qed

section \<open>Login and the current user\<close>

text \<open>
  C4. \<open>login\<close> is meant to fail with one and the same error whether no user with
  the email exists or one exists and the password does not verify against the stored
  hash. It does so when verification returns \<open>False\<close> (\<open>login_refused\<close>). It does
  not when verification fails by raising: for the same request, the store without the
  user answers status 400, \<open>Invalid credentials\<close>, and the store holding the user's
  record without a \<open>password_hash\<close> answers with the library's \<open>UnknownHashError\<close>,
  so the two responses differ and tell that the user exists.
\<close>

theorem login_missing_hash_reveals_user:
  "login (world0\<lparr>pwd_context := passlib_context bcrypt_hash bcrypt_verify\<rparr>)
       (Some empty_db) legacy =
     Inl (HTTPException 400 (py ''Invalid credentials'')) \<and>
   login (world0\<lparr>pwd_context := passlib_context bcrypt_hash bcrypt_verify\<rparr>)
       (Some legacy_db) legacy =
     Inl (Exception (py ''UnknownHashError'') (py ''hash could not be identified'')) \<and>
   login (world0\<lparr>pwd_context := passlib_context bcrypt_hash bcrypt_verify\<rparr>)
       (Some empty_db) legacy \<noteq>
   login (world0\<lparr>pwd_context := passlib_context bcrypt_hash bcrypt_verify\<rparr>)
       (Some legacy_db) legacy"
proof -
  let ?w = "world0\<lparr>pwd_context := passlib_context bcrypt_hash bcrypt_verify\<rparr>"
  have absent: "get_documents (Some empty_db) (py ''agencyuser'')
      [(py ''email'', PyStr (AuthIn.email legacy))] 1 = Inr []"
    by (simp add: get_documents_def input_defs)
  have a: "login ?w (Some empty_db) legacy =
      Inl (HTTPException 400 (py ''Invalid credentials''))"
    by (rule login_refused [OF absent]) simp
  have present: "get_documents (Some legacy_db) (py ''agencyuser'')
      [(py ''email'', PyStr (AuthIn.email legacy))] (Suc 0) = Inr [legacy_doc]"
    by (simp add: get_documents_def matches_def input_defs py_def)
  have dflt: "dict_get_default legacy_doc (py ''password_hash'') (PyStr []) = PyStr []"
    by (simp add: dict_get_default_def input_defs py_def)
  have v: "verify_password (passlib_context bcrypt_hash bcrypt_verify)
      (AuthIn.password legacy) (PyStr []) =
      Inl (Exception (py ''UnknownHashError'') (py ''hash could not be identified''))"
    by (simp add: verify_password_def passlib_context_def passlib_verify_def
        bcrypt_identify_def bcrypt_idents_def py_def)
  have b: "login ?w (Some legacy_db) legacy =
      Inl (Exception (py ''UnknownHashError'') (py ''hash could not be identified''))"
    by (simp add: login_def Let_def present dflt v)
  show ?thesis unfolding a b by simp
qed

text \<open>
  C6. \<open>get_current_user\<close> fails as unauthenticated, status 401, and not with a
  server error, when the token verifies but carries no subject, and when it carries
  one but the lookup finds no user with that email.
\<close>

theorem get_current_user_unauthenticated:
  assumes "jwt_decode token (SECRET_KEY (environ w)) [ALGORITHM] (utcnow w) = Inr payload"
    and "map_of payload (py ''sub'') = None \<or>
         get_documents db (py ''agencyuser'')
           [(py ''email'', dict_get payload (py ''sub''))] 1 = Inr []"
  shows "get_current_user w db token =
           Inl (HTTPException 401 (py ''Could not validate credentials''))"
  using assms
  by (auto simp: get_current_user_def decode_subject_def Let_def credentials_exception_def
      dict_get_def split: option.splits)

theorem get_current_user_unauthenticated_witness:
  "get_current_user world0 (Some empty_db)
     (create_access_token world0 [(py ''sub'', PyStr (py ''a@x.com''))] None) =
     Inl (HTTPException 401 (py ''Could not validate credentials'')) \<and>
   get_current_user world0 (Some alice_db) (create_access_token world0 [] None) =
     Inl (HTTPException 401 (py ''Could not validate credentials''))"
proof -
  let ?p1 = "[(py ''sub'', PyStr (py ''a@x.com'')), (py ''exp'', PyInt 87400)]"
  let ?p2 = "[(py ''exp'', PyInt 87400)]"
  have d1: "jwt_decode (create_access_token world0 [(py ''sub'', PyStr (py ''a@x.com''))] None)
      (SECRET_KEY (environ world0)) [ALGORITHM] (utcnow world0) = Inr ?p1"
    by (simp add: create_access_token_def jwt_encode_def Let_def timedelta_minutes_def
        ACCESS_TOKEN_EXPIRE_MINUTES_def input_defs py_def)
  have d2: "jwt_decode (create_access_token world0 [] None)
      (SECRET_KEY (environ world0)) [ALGORITHM] (utcnow world0) = Inr ?p2"
    by (simp add: create_access_token_def jwt_encode_def Let_def timedelta_minutes_def
        ACCESS_TOKEN_EXPIRE_MINUTES_def input_defs py_def)
  have h1: "map_of ?p1 (py ''sub'') = None \<or>
      get_documents (Some empty_db) (py ''agencyuser'')
        [(py ''email'', dict_get ?p1 (py ''sub''))] 1 = Inr []"
    by (simp add: get_documents_def input_defs)
  have h2: "map_of ?p2 (py ''sub'') = None \<or>
      get_documents (Some alice_db) (py ''agencyuser'')
        [(py ''email'', dict_get ?p2 (py ''sub''))] 1 = Inr []"
    by (simp add: py_def)
  show ?thesis
    using get_current_user_unauthenticated [OF d1 h1] get_current_user_unauthenticated [OF d2 h2]
    by simp
qed

section \<open>Registration\<close>

text \<open>
  C1. \<open>register\<close> against a store with a handle: if a user with the email exists, it
  fails with status 400, \<open>Email already registered\<close>, and leaves the store as it
  was; if none exists and the password hashes to \<open>h\<close>, it appends exactly one
  document with the email, \<open>h\<close> and the part of the email before the first \<open>@\<close> as
  name to the collection of users, and returns a bearer token whose subject is the
  email. In both cases a second registration of the same email, at any later time and
  with any password, fails with \<open>Email already registered\<close>.
\<close>

theorem register_contract:
  assumes "db = Some d"
  shows "((\<exists>doc\<in>set (documents d (py ''agencyuser'')).
             map_of doc (py ''email'') = Some (PyStr (AuthIn.email payload))) \<longrightarrow>
          register w db payload =
            (Inl (HTTPException 400 (py ''Email already registered'')), db)) \<and>
         ((\<forall>doc\<in>set (documents d (py ''agencyuser'')).
             map_of doc (py ''email'') \<noteq> Some (PyStr (AuthIn.email payload))) \<and>
          hash (pwd_context w) (AuthIn.password payload) = Inr h \<longrightarrow>
          register w db payload =
            (Inr \<lparr>access_token =
                    JWT [(py ''sub'', PyStr (AuthIn.email payload)),
                         (py ''exp'',
                          PyInt (utcnow w + timedelta_minutes ACCESS_TOKEN_EXPIRE_MINUTES))]
                      (SECRET_KEY (environ w)) ALGORITHM,
                  token_type = py ''bearer''\<rparr>,
             Some (d\<lparr>documents := (documents d)(py ''agencyuser'' :=
               documents d (py ''agencyuser'') @
                 [[(py ''email'', PyStr (AuthIn.email payload)),
                   (py ''password_hash'', PyStr h),
                   (py ''name'',
                    PyStr (takeWhile (\<lambda>c. c \<noteq> at_sign) (AuthIn.email payload)))]])\<rparr>))) \<and>
         (hash (pwd_context w) (AuthIn.password payload) = Inr h \<and>
          AuthIn.email payload' = AuthIn.email payload \<longrightarrow>
          fst (register w' (snd (register w db payload)) payload') =
            Inl (HTTPException 400 (py ''Email already registered'')))"
proof (intro conjI impI)
  assume "\<exists>doc\<in>set (documents d (py ''agencyuser'')).
             map_of doc (py ''email'') = Some (PyStr (AuthIn.email payload))"
  then show "register w db payload =
      (Inl (HTTPException 400 (py ''Email already registered'')), db)"
    using assms by (simp add: register_taken)
next
  assume "(\<forall>doc\<in>set (documents d (py ''agencyuser'')).
             map_of doc (py ''email'') \<noteq> Some (PyStr (AuthIn.email payload))) \<and>
          hash (pwd_context w) (AuthIn.password payload) = Inr h"
  then show "register w db payload =
            (Inr \<lparr>access_token =
                    JWT [(py ''sub'', PyStr (AuthIn.email payload)),
                         (py ''exp'',
                          PyInt (utcnow w + timedelta_minutes ACCESS_TOKEN_EXPIRE_MINUTES))]
                      (SECRET_KEY (environ w)) ALGORITHM,
                  token_type = py ''bearer''\<rparr>,
             Some (d\<lparr>documents := (documents d)(py ''agencyuser'' :=
               documents d (py ''agencyuser'') @
                 [[(py ''email'', PyStr (AuthIn.email payload)),
                   (py ''password_hash'', PyStr h),
                   (py ''name'',
                    PyStr (takeWhile (\<lambda>c. c \<noteq> at_sign) (AuthIn.email payload)))]])\<rparr>))"
    using assms register_fresh [of d payload w h] by (simp add: create_access_token_default)
next
  assume a: "hash (pwd_context w) (AuthIn.password payload) = Inr h \<and>
          AuthIn.email payload' = AuthIn.email payload"
  show "fst (register w' (snd (register w db payload)) payload') =
            Inl (HTTPException 400 (py ''Email already registered''))"
  proof (cases "\<exists>doc\<in>set (documents d (py ''agencyuser'')).
             map_of doc (py ''email'') = Some (PyStr (AuthIn.email payload))")
    case True
    then have "register w db payload =
        (Inl (HTTPException 400 (py ''Email already registered'')), Some d)"
      using assms by (simp add: register_taken)
    moreover have "register w' (Some d) payload' =
        (Inl (HTTPException 400 (py ''Email already registered'')), Some d)"
      using True a by (simp add: register_taken)
    ultimately show ?thesis by simp
  next
    case False
    then have "snd (register w db payload) =
        Some (d\<lparr>documents := (documents d)(py ''agencyuser'' :=
               documents d (py ''agencyuser'') @
                 [[(py ''email'', PyStr (AuthIn.email payload)),
                   (py ''password_hash'', PyStr h),
                   (py ''name'',
                    PyStr (takeWhile (\<lambda>c. c \<noteq> at_sign) (AuthIn.email payload)))]])\<rparr>)"
      using assms a register_fresh [of d payload w h] by simp
    then show ?thesis using a by (simp add: register_taken)
  qed
qed

theorem register_contract_witness:
  "register world0 (Some alice_db) alice =
     (Inl (HTTPException 400 (py ''Email already registered'')), Some alice_db) \<and>
   register world0 (Some empty_db) alice =
     (Inr \<lparr>access_token =
             JWT [(py ''sub'', PyStr (py ''a@x.com'')), (py ''exp'', PyInt 87400)]
               (py ''supersecretkeychange'') (py ''HS256''),
           token_type = py ''bearer''\<rparr>,
      Some (empty_db\<lparr>documents := (documents empty_db)(py ''agencyuser'' := [alice_doc])\<rparr>)) \<and>
   fst (register world0 (snd (register world0 (Some empty_db) alice)) alice) =
     Inl (HTTPException 400 (py ''Email already registered''))"
proof -
  have ex: "\<exists>doc\<in>set (documents alice_db (py ''agencyuser'')).
      map_of doc (py ''email'') = Some (PyStr (AuthIn.email alice))"
    by (simp add: input_defs py_def)
  have nex: "\<forall>doc\<in>set (documents empty_db (py ''agencyuser'')).
      map_of doc (py ''email'') \<noteq> Some (PyStr (AuthIn.email alice))"
    by (simp add: input_defs)
  have h: "hash (pwd_context world0) (AuthIn.password alice) = Inr (py ''$2b$pw'')"
    by (simp add: input_defs py_def)
  have name: "takeWhile (\<lambda>c. c \<noteq> at_sign) (py ''a@x.com'') = py ''a''"
    by (simp add: at_sign_def py_def)
  have key: "SECRET_KEY (environ world0) = py ''supersecretkeychange''"
    by (simp add: SECRET_KEY_def getenv_default_def input_defs)
  have exp: "utcnow world0 + timedelta_minutes ACCESS_TOKEN_EXPIRE_MINUTES = 87400"
    by (simp add: timedelta_minutes_def ACCESS_TOKEN_EXPIRE_MINUTES_def input_defs)
  have mail: "AuthIn.email alice = py ''a@x.com''"
    by (simp add: input_defs)
  have docs: "documents empty_db (py ''agencyuser'') = []"
    by (simp add: input_defs)
  note taken = register_contract [where db = "Some alice_db" and d = alice_db
      and payload = alice and w = world0, OF refl, THEN conjunct1, rule_format, OF ex]
  note fresh = register_contract [where db = "Some empty_db" and d = empty_db
      and payload = alice and w = world0 and h = "py ''$2b$pw''", OF refl,
      THEN conjunct2, THEN conjunct1, rule_format, OF conjI [OF nex h]]
  note again = register_contract [where db = "Some empty_db" and d = empty_db
      and payload = alice and w = world0 and h = "py ''$2b$pw''"
      and payload' = alice and w' = world0, OF refl,
      THEN conjunct2, THEN conjunct2, rule_format, OF conjI [OF h refl]]
  have fresh': "register world0 (Some empty_db) alice =
     (Inr \<lparr>access_token =
             JWT [(py ''sub'', PyStr (py ''a@x.com'')), (py ''exp'', PyInt 87400)]
               (py ''supersecretkeychange'') (py ''HS256''),
           token_type = py ''bearer''\<rparr>,
      Some (empty_db\<lparr>documents := (documents empty_db)(py ''agencyuser'' := [alice_doc])\<rparr>))"
    unfolding fresh mail name key exp docs ALGORITHM_def alice_doc_def by simp
  from taken fresh' again show ?thesis by simp
qed

section \<open>Password verification\<close>

text \<open>
  C3. \<open>verify_password\<close> hands both arguments to the library and returns what it
  returns; it catches nothing. With the library's dispatch, the empty string is not
  identified as a hash of any configured scheme, so the call raises
  \<open>UnknownHashError\<close> for every password instead of returning \<open>False\<close>, and \<open>login\<close>
  for a user whose record has no \<open>password_hash\<close> ends in that exception rather than
  in \<open>Invalid credentials\<close>.
\<close>

theorem verify_password_empty_hash_raises:
  "verify_password (passlib_context bcrypt_hash bcrypt_verify) plain_password (PyStr []) =
     Inl (Exception (py ''UnknownHashError'') (py ''hash could not be identified'')) \<and>
   login (world0\<lparr>pwd_context := passlib_context bcrypt_hash bcrypt_verify\<rparr>)
       (Some legacy_db) legacy =
     Inl (Exception (py ''UnknownHashError'') (py ''hash could not be identified''))"
proof -
  have v: "verify_password (passlib_context bcrypt_hash bcrypt_verify) p (PyStr []) =
     Inl (Exception (py ''UnknownHashError'') (py ''hash could not be identified''))" for p
    by (simp add: verify_password_def passlib_context_def passlib_verify_def
        bcrypt_identify_def bcrypt_idents_def py_def)
  have look: "get_documents (Some legacy_db) (py ''agencyuser'')
      [(py ''email'', PyStr (AuthIn.email legacy))] (Suc 0) = Inr [legacy_doc]"
    by (simp add: get_documents_def matches_def input_defs py_def)
  have dflt: "dict_get_default legacy_doc (py ''password_hash'') (PyStr []) = PyStr []"
    by (simp add: dict_get_default_def input_defs py_def)
  have "login (world0\<lparr>pwd_context := passlib_context bcrypt_hash bcrypt_verify\<rparr>)
       (Some legacy_db) legacy =
     Inl (Exception (py ''UnknownHashError'') (py ''hash could not be identified''))"
    by (simp add: login_def Let_def look dflt v)
  with v show ?thesis by simp
qed

end
